theory Spec2Isabelle
  imports Complex_Main "HOL-Library.Sublist"
begin

section \<open>Exceptions\<close>

text \<open>
  Every \<^verbatim>\<open>raise\<close> of the two modules is a value. \<open>ValueError\<close> and \<open>RuntimeError\<close> carry
  the argument the source passes; \<open>RuntimeError\<close> also carries its cause
  (\<^verbatim>\<open>raise RuntimeError(path) from exception\<close>). \<open>OpError\<close> stands for an error raised
  inside a framework operation (shape mismatch, bad operand), which the source never
  catches.
\<close>

datatype exn =
    ValueError string
  | IndexError
  | TypeError
  | OSError
  | OpError
  | InvalidGitRepositoryError
  | RuntimeError string exn

section \<open>asr/util/tf\_contrib.py\<close>

subsection \<open>Configuration flags and the graph under construction\<close>

text \<open>
  \<^verbatim>\<open>asr.params.FLAGS\<close> is defined outside the two modules; the functions only read it, so
  it is a parameter of every function that uses it.
\<close>

record flags =
  relu_cutoff :: real
  conv_dropout_rate :: real
  conv_filters :: "nat list"
  random_seed :: int

text \<open>
  Tensors are what graph construction builds: expressions over variables and constants.
\<close>

datatype tensor =
    Const real
  | Variable string
  | Sub tensor tensor
  | Add tensor tensor
  | Mul tensor tensor
  | Div tensor tensor
  | Pow tensor tensor
  | Sqrt tensor
  | L2Loss tensor

datatype summary = Histogram string tensor | Scalar string tensor

datatype layer_op =
    Conv2D nat "nat \<times> nat" "nat \<times> nat"
  | Minimum real
  | Dropout real bool
  | Reshape "nat list"
  | Tile nat nat

datatype initializer = TruncatedNormal real

record var_info =
  var_shape :: "nat list"
  var_init :: initializer
  var_device :: string

text \<open>
  The default graph is the process-wide state the module writes to: the layer operations
  added so far, the summaries, the named collections and the variable store.
\<close>

record graph =
  layers :: "layer_op list"
  summaries :: "summary list"
  collections :: "string \<Rightarrow> tensor list"
  variables :: "string \<rightharpoonup> var_info"

definition empty_graph :: graph where
  "empty_graph = \<lparr>layers = [], summaries = [], collections = (\<lambda>_. []), variables = Map.empty\<rparr>"

definition add_layer :: "layer_op \<Rightarrow> graph \<Rightarrow> graph" where
  "add_layer op g = g\<lparr>layers := layers g @ [op]\<rparr>"

subsection \<open>Shapes of the framework operations used by \<open>conv_layers\<close>\<close>

text \<open>
  A tensor is followed by its shape, a list of dimension sizes. \<^verbatim>\<open>tf.layers.conv2d\<close> with
  \<^verbatim>\<open>padding='SAME'\<close> takes a rank-4 input \<open>[batch, height, width, channels]\<close> and
  gives \<open>[batch, \<lceil>height / stride_h\<rceil>, \<lceil>width / stride_w\<rceil>, filters]\<close>; with an odd
  kernel this is the source docstring's \<open>(W_i - K_w + 2*(K_w//2)) // S_w + 1\<close>. A
  filter count, kernel size or stride of 0 is outside the operation's domain and is an
  \<open>OpError\<close> here. \<^verbatim>\<open>tf.minimum\<close> with a scalar and \<^verbatim>\<open>tf.layers.dropout\<close> keep the
  shape.
\<close>

definition ceil_div :: "nat \<Rightarrow> nat \<Rightarrow> nat" where
  "ceil_div a b = (a + b - 1) div b"

definition conv2d_same :: "nat list \<Rightarrow> nat \<Rightarrow> nat \<times> nat \<Rightarrow> nat \<times> nat \<Rightarrow> exn + nat list" where
  "conv2d_same inputs fltr kernel_size stride =
     (case inputs of
        [b, h, w, c] \<Rightarrow>
          if fltr = 0 \<or> fst kernel_size = 0 \<or> snd kernel_size = 0
             \<or> fst stride = 0 \<or> snd stride = 0
          then Inl OpError
          else Inr [b, ceil_div h (fst stride), ceil_div w (snd stride), fltr]
      | _ \<Rightarrow> Inl OpError)"

text \<open>
  \<^verbatim>\<open>tf.reshape(t, [d0, -1, d2])\<close>: the middle dimension is inferred from the number of
  elements. The operation fails when \<open>d0 * d2\<close> is 0 (nothing to infer from) or does not
  divide the number of elements.
\<close>

definition tf_reshape :: "nat list \<Rightarrow> nat \<Rightarrow> nat \<Rightarrow> exn + nat list" where
  "tf_reshape shp d0 d2 =
     (let n = prod_list shp; k = d0 * d2
      in if k = 0 then Inl OpError
         else if n mod k \<noteq> 0 then Inl OpError
         else Inr [d0, n div k, d2])"

text \<open>\<^verbatim>\<open>tf.tile(xs, [n])\<close> on a vector repeats it \<open>n\<close> times.\<close>

definition tf_tile :: "'a list \<Rightarrow> nat \<Rightarrow> 'a list" where
  "tf_tile xs n = concat (replicate n xs)"

subsection \<open>\<open>conv_layers\<close>\<close>

definition default_kernel_sizes :: "(nat \<times> nat) list" where
  "default_kernel_sizes = [(11, 41), (11, 21), (11, 21)]"

definition default_strides :: "(nat \<times> nat) list" where
  "default_strides = [(2, 2), (1, 2), (1, 2)]"

definition mismatch_message :: string where
  "mismatch_message = ''conv_layers(): Arguments filters, kernel_size, and strides must contain the same number of elements.''"

text \<open>
  The loop over \<^verbatim>\<open>zip(filters, kernel_sizes, strides)\<close>: each round adds the convolution,
  the clipping and the dropout to the graph. An error of the convolution leaves the
  loop with the graph as built so far. The kernel initializer and regularizer of the
  source do not act on shapes and are left out.
\<close>

fun conv_loop ::
  "flags \<Rightarrow> bool \<Rightarrow> (nat \<times> (nat \<times> nat) \<times> (nat \<times> nat)) list \<Rightarrow> nat list \<Rightarrow> graph
     \<Rightarrow> (exn + nat list) \<times> graph" where
  "conv_loop F training [] output g = (Inr output, g)"
| "conv_loop F training ((fltr, kernel_size, stride) # rest) output g =
     (case conv2d_same output fltr kernel_size stride of
        Inl e \<Rightarrow> (Inl e, g)
      | Inr output1 \<Rightarrow>
          conv_loop F training rest output1
            (add_layer (Dropout (conv_dropout_rate F) training)
              (add_layer (Minimum (relu_cutoff F))
                (add_layer (Conv2D fltr kernel_size stride) g))))"

definition conv_layers ::
  "flags \<Rightarrow> nat list \<Rightarrow> nat list \<Rightarrow> (nat \<times> nat) list \<Rightarrow> (nat \<times> nat) list \<Rightarrow> bool \<Rightarrow> graph
     \<Rightarrow> (exn + (nat list \<times> nat list)) \<times> graph" where
  "conv_layers F sequences filters kernel_sizes strides training g =
     (if \<not> (length filters = length kernel_sizes \<and> length kernel_sizes = length strides)
      then (Inl (ValueError mismatch_message), g)
      else
        case conv_loop F training (zip filters (zip kernel_sizes strides)) sequences g of
          (Inl e, g1) \<Rightarrow> (Inl e, g1)
        | (Inr output, g1) \<Rightarrow>
            (case output of
               [] \<Rightarrow> (Inl OpError, g1)
             | d0 # _ \<Rightarrow>
                 if filters = [] then (Inl IndexError, g1)
                 else
                   (case tf_reshape output d0 (10 * last filters) of
                      Inl e \<Rightarrow> (Inl e, g1)
                    | Inr output' \<Rightarrow>
                        (Inr (output', tf_tile [output' ! 1] (output' ! 0)),
                         add_layer (Tile (output' ! 1) (output' ! 0))
                           (add_layer (Reshape output') g1)))))"

text \<open>The call with the defaults of the signature.\<close>

definition conv_layers_default :: "flags \<Rightarrow> nat list \<Rightarrow> graph \<Rightarrow> (exn + (nat list \<times> nat list)) \<times> graph" where
  "conv_layers_default F sequences g =
     conv_layers F sequences (conv_filters F) default_kernel_sizes default_strides True g"


text \<open>
  Quantities the statements below speak about: a configuration inside the domain of the
  convolution, and the time and frequency sizes left after the strides of all layers.
\<close>

definition positive_config :: "nat list \<Rightarrow> (nat \<times> nat) list \<Rightarrow> (nat \<times> nat) list \<Rightarrow> bool" where
  "positive_config fs ks ss =
     (list_all (\<lambda>f. 0 < f) fs \<and> list_all (\<lambda>k. 0 < fst k \<and> 0 < snd k) ks
      \<and> list_all (\<lambda>s. 0 < fst s \<and> 0 < snd s) ss)"

definition time_after :: "(nat \<times> nat) list \<Rightarrow> nat \<Rightarrow> nat" where
  "time_after ss t = foldl ceil_div t (map fst ss)"

definition freq_after :: "(nat \<times> nat) list \<Rightarrow> nat \<Rightarrow> nat" where
  "freq_after ss f = foldl ceil_div f (map snd ss)"

definition example_flags :: flags where
  "example_flags =
     \<lparr>relu_cutoff = 20, conv_dropout_rate = 2 / 5, conv_filters = [32, 32, 96], random_seed = 0\<rparr>"

subsection \<open>\<open>AdamOptimizerLogger\<close>\<close>

text \<open>
  The optimizer object as \<open>_apply_dense\<close> reads it: the learning-rate and epsilon
  tensors, the two beta accumulators and the slot variables, looked up by variable and
  slot name. \<^verbatim>\<open>get_slot\<close> returns \<^verbatim>\<open>None\<close> for a slot that was never created.
\<close>

record adam_optimizer =
  lr_t :: tensor
  epsilon_t :: tensor
  beta1_power :: tensor
  beta2_power :: tensor
  slots :: "tensor \<times> string \<rightharpoonup> tensor"

definition get_slot :: "adam_optimizer \<Rightarrow> tensor \<Rightarrow> string \<Rightarrow> tensor option" where
  "get_slot self var name = slots self (var, name)"

definition get_beta_accumulators :: "adam_optimizer \<Rightarrow> tensor \<times> tensor" where
  "get_beta_accumulators self = (beta1_power self, beta2_power self)"

definition tf_summary_histogram :: "string \<Rightarrow> tensor \<Rightarrow> graph \<Rightarrow> graph" where
  "tf_summary_histogram name t g = g\<lparr>summaries := summaries g @ [Histogram name t]\<rparr>"

definition tf_summary_scalar :: "string \<Rightarrow> tensor \<Rightarrow> graph \<Rightarrow> graph" where
  "tf_summary_scalar name t g = g\<lparr>summaries := summaries g @ [Scalar name t]\<rparr>"

text \<open>
  \<open>_apply_dense\<close> of the subclass. The method of the base class is the framework's; it
  is the parameter \<open>super_apply_dense\<close>, any function of the optimizer, the gradient and
  the variable. Dividing \<^verbatim>\<open>None\<close> by a tensor raises inside the tensor's operator, so a
  missing slot is an \<open>OpError\<close>.
\<close>

definition AdamOptimizerLogger_apply_dense ::
  "(adam_optimizer \<Rightarrow> tensor \<Rightarrow> tensor \<Rightarrow> exn + 'u) \<Rightarrow> adam_optimizer \<Rightarrow> tensor \<Rightarrow> tensor \<Rightarrow> graph
     \<Rightarrow> (exn + 'u) \<times> graph" where
  "AdamOptimizerLogger_apply_dense super_apply_dense self grad var g =
     (let m = get_slot self var ''m'';
          v = get_slot self var ''v'';
          (beta1_power, beta2_power) = get_beta_accumulators self
      in case m of
           None \<Rightarrow> (Inl OpError, g)
         | Some m \<Rightarrow>
             let m_hat = Div m (Sub (Const 1) beta1_power)
             in case v of
                  None \<Rightarrow> (Inl OpError, g)
                | Some v \<Rightarrow>
                    let v_hat = Div v (Sub (Const 1) beta2_power);
                        step = Div m_hat (Add (Pow v_hat (Const (1 / 2))) (epsilon_t self));
                        g1 = tf_summary_histogram ''step'' step g;
                        current_lr =
                          Div (Mul (lr_t self) (Sqrt (Sub (Const 1) beta2_power)))
                              (Sub (Const 1) beta1_power);
                        g2 = tf_summary_scalar ''estimated_lr'' current_lr g1
                    in (super_apply_dense self grad var, g2))"

subsection \<open>\<open>bidirectional_cells\<close> and \<open>create_cell\<close>\<close>

datatype activation = Tanh | Relu

datatype rnn_cell = BasicRNNCell int activation

record dropout_wrapper =
  cell :: rnn_cell
  input_keep_prob :: real
  output_keep_prob :: real
  seed :: int

text \<open>
  \<^verbatim>\<open>tf.nn.rnn_cell.DropoutWrapper\<close> rejects a constant keep probability outside
  \<open>[0, 1]\<close>.
\<close>

definition DropoutWrapper :: "rnn_cell \<Rightarrow> real \<Rightarrow> real \<Rightarrow> int \<Rightarrow> exn + dropout_wrapper" where
  "DropoutWrapper c ikp okp sd =
     (if ikp < 0 \<or> 1 < ikp \<or> okp < 0 \<or> 1 < okp then Inl OpError
      else Inr \<lparr>cell = c, input_keep_prob = ikp, output_keep_prob = okp, seed = sd\<rparr>)"

definition create_cell :: "flags \<Rightarrow> int \<Rightarrow> real \<Rightarrow> exn + dropout_wrapper" where
  "create_cell F num_units keep_prob =
     (let cell = BasicRNNCell num_units Tanh
      in DropoutWrapper cell keep_prob keep_prob (random_seed F))"

text \<open>A list comprehension whose element expression may raise: the first error ends it.\<close>

fun comprehension :: "(exn + 'a) list \<Rightarrow> exn + 'a list" where
  "comprehension [] = Inr []"
| "comprehension (Inl e # _) = Inl e"
| "comprehension (Inr x # rest) =
     (case comprehension rest of Inl e \<Rightarrow> Inl e | Inr xs \<Rightarrow> Inr (x # xs))"

text \<open>\<^verbatim>\<open>range(n)\<close> is empty for \<open>n \<le> 0\<close>.\<close>

definition range_py :: "int \<Rightarrow> nat list" where
  "range_py n = [0..<nat n]"

definition bidirectional_cells ::
  "flags \<Rightarrow> int \<Rightarrow> int \<Rightarrow> real \<Rightarrow> exn + (dropout_wrapper list \<times> dropout_wrapper list)" where
  "bidirectional_cells F num_units num_layers dropout =
     (let keep_prob = min 1 (max 0 (1 - dropout))
      in case comprehension (map (\<lambda>_. create_cell F num_units keep_prob) (range_py num_layers)) of
           Inl e \<Rightarrow> Inl e
         | Inr fw_cells \<Rightarrow>
             (case comprehension (map (\<lambda>_. create_cell F num_units keep_prob) (range_py num_layers)) of
                Inl e \<Rightarrow> Inl e
              | Inr bw_cells \<Rightarrow> Inr (fw_cells, bw_cells)))"

text \<open>The call that leaves \<open>dropout\<close> to its default, \<^verbatim>\<open>dropout=1.0\<close>.\<close>

definition bidirectional_cells_default ::
  "flags \<Rightarrow> int \<Rightarrow> int \<Rightarrow> exn + (dropout_wrapper list \<times> dropout_wrapper list)" where
  "bidirectional_cells_default F num_units num_layers = bidirectional_cells F num_units num_layers 1"

text \<open>The specification's \<open>clamp(x, lo, hi)\<close>, written from its words.\<close>

definition clamp_spec :: "real \<Rightarrow> real \<Rightarrow> real \<Rightarrow> real" where
  "clamp_spec x lo hi = (if x < lo then lo else if hi < x then hi else x)"

subsection \<open>\<open>variable_on_cpu\<close> and \<open>variable_with_weight_decay\<close>\<close>

text \<open>
  \<^verbatim>\<open>tf.get_variable\<close> in a scope that does not reuse variables: a name already in the
  store is an error, a new one is entered with its shape, initializer and device.
\<close>

definition tf_get_variable ::
  "string \<Rightarrow> nat list \<Rightarrow> initializer \<Rightarrow> string \<Rightarrow> graph \<Rightarrow> (exn + tensor) \<times> graph" where
  "tf_get_variable name shape init device g =
     (case variables g name of
        Some _ \<Rightarrow> (Inl OpError, g)
      | None \<Rightarrow>
          (Inr (Variable name),
           g\<lparr>variables := (variables g)(name \<mapsto>
                \<lparr>var_shape = shape, var_init = init, var_device = device\<rparr>)\<rparr>))"

definition tf_add_to_collection :: "string \<Rightarrow> tensor \<Rightarrow> graph \<Rightarrow> graph" where
  "tf_add_to_collection name t g =
     g\<lparr>collections := (collections g)(name := collections g name @ [t])\<rparr>"

definition variable_on_cpu ::
  "string \<Rightarrow> nat list \<Rightarrow> initializer \<Rightarrow> graph \<Rightarrow> (exn + tensor) \<times> graph" where
  "variable_on_cpu name shape init g = tf_get_variable name shape init ''/cpu:0'' g"

definition variable_with_weight_decay ::
  "string \<Rightarrow> nat list \<Rightarrow> real \<Rightarrow> real option \<Rightarrow> graph \<Rightarrow> (exn + tensor) \<times> graph" where
  "variable_with_weight_decay name shape stddev weight_decay g =
     (let initializer = TruncatedNormal stddev
      in case variable_on_cpu name shape initializer g of
           (Inl e, g1) \<Rightarrow> (Inl e, g1)
         | (Inr var, g1) \<Rightarrow>
             (case weight_decay of
                None \<Rightarrow> (Inr var, g1)
              | Some wd \<Rightarrow>
                  let weight_loss = Mul (L2Loss var) (Const wd)
                  in (Inr var, tf_add_to_collection ''losses'' weight_loss g1)))"

text \<open>
  The value of a tensor once the variables have values, with real numbers in place of
  floats. A value is the flat list of the entries; a one-entry value is broadcast over
  the other operand. \<^verbatim>\<open>tf.nn.l2_loss(t)\<close> is \<open>sum(t ** 2) / 2\<close>.
\<close>

fun broadcast :: "(real \<Rightarrow> real \<Rightarrow> real) \<Rightarrow> real list \<Rightarrow> real list \<Rightarrow> real list" where
  "broadcast f [a] ys = map (f a) ys"
| "broadcast f xs [b] = map (\<lambda>x. f x b) xs"
| "broadcast f xs ys = map2 f xs ys"

fun eval :: "(string \<Rightarrow> real list) \<Rightarrow> tensor \<Rightarrow> real list" where
  "eval \<sigma> (Const c) = [c]"
| "eval \<sigma> (Variable n) = \<sigma> n"
| "eval \<sigma> (Sub a b) = broadcast (-) (eval \<sigma> a) (eval \<sigma> b)"
| "eval \<sigma> (Add a b) = broadcast (+) (eval \<sigma> a) (eval \<sigma> b)"
| "eval \<sigma> (Mul a b) = broadcast (*) (eval \<sigma> a) (eval \<sigma> b)"
| "eval \<sigma> (Div a b) = broadcast (/) (eval \<sigma> a) (eval \<sigma> b)"
| "eval \<sigma> (Pow a b) = broadcast (powr) (eval \<sigma> a) (eval \<sigma> b)"
| "eval \<sigma> (Sqrt a) = map sqrt (eval \<sigma> a)"
| "eval \<sigma> (L2Loss a) = [(\<Sum>x\<leftarrow>eval \<sigma> a. x\<^sup>2) / 2]"

section \<open>asr/util/storage.py\<close>

subsection \<open>Git provenance\<close>

text \<open>
  What the functions read of a repository: the commit of \<open>HEAD\<close>, the active branch
  (absent when \<open>HEAD\<close> is detached) and the tags, each with the commit time the source sorts
  by. \<^verbatim>\<open>Repo('.', search_parent_directories=True)\<close> raises when there is no repository.
\<close>

record repo =
  head_hexsha :: string
  branch :: "string option"
  tags :: "(string \<times> int) list"

definition Repo :: "repo option \<Rightarrow> exn + repo" where
  "Repo env = (case env of None \<Rightarrow> Inl InvalidGitRepositoryError | Some r \<Rightarrow> Inr r)"

text \<open>\<^verbatim>\<open>repo.active_branch\<close> raises \<open>TypeError\<close> on a detached \<open>HEAD\<close>.\<close>

definition active_branch :: "repo \<Rightarrow> exn + string" where
  "active_branch r = (case branch r of None \<Rightarrow> Inl TypeError | Some n \<Rightarrow> Inr n)"

definition git_revision_hash :: "repo option \<Rightarrow> exn + string" where
  "git_revision_hash env =
     (case Repo env of Inl e \<Rightarrow> Inl e | Inr repo \<Rightarrow> Inr (head_hexsha repo))"

definition git_branch :: "repo option \<Rightarrow> exn + string" where
  "git_branch env =
     (case Repo env of
        Inl e \<Rightarrow> Inl e
      | Inr repo \<Rightarrow>
          (case active_branch repo of
             Inr branch_name \<Rightarrow> Inr branch_name
           | Inl TypeError \<Rightarrow> Inr ''DETACHED HEAD''
           | Inl e \<Rightarrow> Inl e))"

definition git_latest_tag :: "repo option \<Rightarrow> exn + string" where
  "git_latest_tag env =
     (case Repo env of
        Inl e \<Rightarrow> Inl e
      | Inr repo \<Rightarrow>
          (let tags = sort_key snd (tags repo)
           in if tags = [] then Inl IndexError else Inr (fst (last tags))))"

subsection \<open>Deleting files and directories\<close>

text \<open>
  The world the deletion functions act on: the file system, the failures that the next
  deletion calls will meet (one entry per call; \<open>None\<close> or no entry lets the call run
  normally), and the trace of what was done: deletion calls, warnings printed, seconds slept.
\<close>

datatype node = File | Dir

datatype event = Remove string | Rmtree string | Warn nat string | Sleep nat

record world =
  files :: "string \<rightharpoonup> node"
  faults :: "exn option list"
  trace :: "event list"

definition os_path_exists :: "world \<Rightarrow> string \<Rightarrow> bool" where
  "os_path_exists w path = (files w path \<noteq> None)"

definition os_path_isfile :: "world \<Rightarrow> string \<Rightarrow> bool" where
  "os_path_isfile w path = (files w path = Some File)"

definition os_path_isdir :: "world \<Rightarrow> string \<Rightarrow> bool" where
  "os_path_isdir w path = (files w path = Some Dir)"

definition record_event :: "event \<Rightarrow> world \<Rightarrow> world" where
  "record_event e w = w\<lparr>trace := trace w @ [e]\<rparr>"

definition os_remove :: "string \<Rightarrow> world \<Rightarrow> (exn + unit) \<times> world" where
  "os_remove path w =
     (let w1 = record_event (Remove path) w
      in case faults w1 of
           Some e # rest \<Rightarrow> (Inl e, w1\<lparr>faults := rest\<rparr>)
         | _ \<Rightarrow>
             if files w1 path = Some File
             then (Inr (), w1\<lparr>files := (files w1)(path := None), faults := tl (faults w1)\<rparr>)
             else (Inl OSError, w1\<lparr>faults := tl (faults w1)\<rparr>))"

definition shutil_rmtree :: "string \<Rightarrow> world \<Rightarrow> (exn + unit) \<times> world" where
  "shutil_rmtree path w =
     (let w1 = record_event (Rmtree path) w
      in case faults w1 of
           Some e # rest \<Rightarrow> (Inl e, w1\<lparr>faults := rest\<rparr>)
         | _ \<Rightarrow>
             if files w1 path = Some Dir
             then (Inr (),
                   w1\<lparr>files := (\<lambda>q. if q = path \<or> prefix (path @ ''/'') q then None else files w1 q),
                      faults := tl (faults w1)\<rparr>)
             else (Inl OSError, w1\<lparr>faults := tl (faults w1)\<rparr>))"

text \<open>The clause \<^verbatim>\<open>except (OSError, ValueError)\<close>.\<close>

fun caught :: "exn \<Rightarrow> bool" where
  "caught OSError = True"
| "caught (ValueError _) = True"
| "caught _ = False"

text \<open>
  The loop \<^verbatim>\<open>for i in range(5)\<close> of \<open>delete_file_if_exists\<close>, over the values of \<open>i\<close> still
  to come.
\<close>

fun remove_loop :: "nat list \<Rightarrow> string \<Rightarrow> world \<Rightarrow> (exn + unit) \<times> world" where
  "remove_loop [] path w = (Inr (), w)"
| "remove_loop (i # rest) path w =
     (case os_remove path w of
        (Inr _, w1) \<Rightarrow> (Inr (), w1)
      | (Inl exception, w1) \<Rightarrow>
          if caught exception then
            (let w2 = record_event (Warn i path) w1
             in if i = 4 then (Inl (RuntimeError path exception), w2)
                else remove_loop rest path (record_event (Sleep 1) w2))
          else (Inl exception, w1))"

definition delete_file_if_exists :: "string \<Rightarrow> world \<Rightarrow> (exn + unit) \<times> world" where
  "delete_file_if_exists path w =
     (if os_path_exists w path \<and> os_path_isfile w path
      then remove_loop (range_py 5) path w
      else (Inr (), w))"

definition delete_directory_if_exists :: "string \<Rightarrow> world \<Rightarrow> (exn + unit) \<times> world" where
  "delete_directory_if_exists path w =
     (if os_path_exists w path \<and> os_path_isdir w path
      then (case shutil_rmtree path w of
              (Inr _, w1) \<Rightarrow> (Inr (), w1)
            | (Inl exception, w1) \<Rightarrow>
                if exception = OSError then (Inl exception, w1) else (Inl exception, w1))
      else (Inr (), w))"


text \<open>The deletion calls in a trace.\<close>

fun is_removal :: "event \<Rightarrow> bool" where
  "is_removal (Remove _) = True"
| "is_removal _ = False"

definition removals :: "event list \<Rightarrow> nat" where
  "removals evs = length (filter is_removal evs)"

section \<open>Example inputs\<close>

definition example_optimizer :: adam_optimizer where
  "example_optimizer =
     \<lparr>lr_t = Const (1 / 1000), epsilon_t = Const (1 / 100000000),
      beta1_power = Variable ''beta1_power'', beta2_power = Variable ''beta2_power'',
      slots = [(Variable ''w'', ''m'') \<mapsto> Variable ''w/Adam'',
               (Variable ''w'', ''v'') \<mapsto> Variable ''w/Adam_1'']\<rparr>"

definition example_update :: "adam_optimizer \<Rightarrow> tensor \<Rightarrow> tensor \<Rightarrow> exn + tensor" where
  "example_update self grad var = Inr (Sub var (Mul (lr_t self) grad))"

definition detached_repo :: repo where
  "detached_repo =
     \<lparr>head_hexsha = ''0a1b2c3'', branch = None, tags = [(''v0.1.0'', 100), (''v0.2.0'', 200)]\<rparr>"

definition untagged_repo :: repo where
  "untagged_repo = \<lparr>head_hexsha = ''0a1b2c3'', branch = Some ''master'', tags = []\<rparr>"

definition example_world :: world where
  "example_world =
     \<lparr>files = [''/tmp/a.wav'' \<mapsto> File, ''/tmp/ckpt'' \<mapsto> Dir, ''/tmp/ckpt/model'' \<mapsto> File],
      faults = [Some OSError, Some OSError, Some (ValueError ''embedded null byte''),
                Some OSError, Some OSError],
      trace = []\<rparr>"

section \<open>Properties of \<open>conv_layers\<close>\<close>

subsection \<open>The framework operations\<close>

lemma conv2d_same_Inr:
  "conv2d_same out f k s = Inr o1 \<Longrightarrow>
     length out = 4 \<and> f \<noteq> 0 \<and> o1 = [out ! 0, ceil_div (out ! 1) (fst s), ceil_div (out ! 2) (snd s), f]"
  by (auto simp: conv2d_same_def split: list.splits if_splits)

lemma conv2d_same_Inl: "conv2d_same out f k s = Inl e \<Longrightarrow> e = OpError"
  by (auto simp: conv2d_same_def split: list.splits if_splits)

lemma tf_reshape_Inr:
  "tf_reshape shp d0 d2 = Inr out \<Longrightarrow>
     d0 \<noteq> 0 \<and> d2 \<noteq> 0 \<and> prod_list shp mod (d0 * d2) = 0
     \<and> out = [d0, prod_list shp div (d0 * d2), d2]"
  by (auto simp: tf_reshape_def Let_def split: if_splits)

lemma tf_tile_single: "tf_tile [x] n = replicate n x"
  by (induction n) (simp_all add: tf_tile_def)

lemma ceil_div_Suc_0: "ceil_div a (Suc 0) = a"
  by (simp add: ceil_div_def)

lemma replicate_two: "replicate 2 x = [x, x]"
  by (simp add: numeral_2_eq_2)

lemma list4: "length xs = 4 \<Longrightarrow> \<exists>a b c d. xs = [a, b, c, d]"
  by (auto simp: numeral_eq_Suc length_Suc_conv)

lemma last_zip3:
  assumes "length fs = length ks" and "length ks = length ss" and "fs \<noteq> []"
  shows "fst (last (zip fs (zip ks ss))) = last fs"
proof -
  from assms have ne: "zip fs (zip ks ss) \<noteq> []"
    by (cases fs; cases ks; cases ss) auto
  have len: "length (zip fs (zip ks ss)) = length fs"
    using assms by simp
  have lt: "length fs - 1 < length fs"
    using assms(3) by (cases fs) auto
  have "last (zip fs (zip ks ss)) = zip fs (zip ks ss) ! (length fs - 1)"
    using last_conv_nth[OF ne] len by simp
  also have "\<dots> = (fs ! (length fs - 1), zip ks ss ! (length fs - 1))"
    using lt assms by (intro nth_zip) simp_all
  finally show ?thesis
    using last_conv_nth[OF assms(3)] by simp
qed

subsection \<open>The loop over the layers\<close>

text \<open>The loop fails only inside a convolution.\<close>

lemma conv_loop_Inl: "conv_loop F tr cfg out g = (Inl e, g') \<Longrightarrow> e = OpError"
proof (induction cfg arbitrary: out g)
  case Nil
  then show ?case by simp
next
  case (Cons a cfg)
  obtain f k s where a: "a = (f, k, s)"
    by (cases a) auto
  show ?case
  proof (cases "conv2d_same out f k s")
    case (Inl e')
    with Cons.prems a show ?thesis
      by (auto dest: conv2d_same_Inl)
  next
    case (Inr o1)
    with Cons.prems a show ?thesis
      by (auto dest: Cons.IH)
  qed
qed

text \<open>
  A loop of at least one layer that succeeds started from a rank-4 shape, keeps the
  batch size and ends with the last filter count as channel size.
\<close>

lemma conv_loop_Inr:
  "conv_loop F tr cfg out g = (Inr out', g') \<Longrightarrow> cfg \<noteq> [] \<Longrightarrow>
     length out = 4 \<and> length out' = 4 \<and> out' ! 0 = out ! 0
     \<and> out' ! 3 = fst (last cfg) \<and> out' ! 3 \<noteq> 0"
proof (induction cfg arbitrary: out g)
  case Nil
  then show ?case by simp
next
  case (Cons a cfg)
  obtain f k s where a: "a = (f, k, s)"
    by (cases a) auto
  from Cons.prems obtain o1 where o1: "conv2d_same out f k s = Inr o1"
    by (auto simp: a split: sum.splits)
  note c = conv2d_same_Inr[OF o1]
  from Cons.prems o1 a
  have rest: "conv_loop F tr cfg o1
                (add_layer (Dropout (conv_dropout_rate F) tr)
                  (add_layer (Minimum (relu_cutoff F)) (add_layer (Conv2D f k s) g)))
              = (Inr out', g')"
    by simp
  show ?case
  proof (cases "cfg = []")
    case True
    with rest c a show ?thesis by auto
  next
    case False
    from Cons.IH[OF rest False] c a False show ?thesis by auto
  qed
qed

text \<open>On a rank-4 input and a configuration inside the domain the loop succeeds.\<close>

lemma conv_loop_positive:
  "length fs = length ks \<Longrightarrow> length ks = length ss \<Longrightarrow> positive_config fs ks ss \<Longrightarrow>
     \<exists>g'. conv_loop F tr (zip fs (zip ks ss)) [b, t, f, c] g
            = (Inr [b, time_after ss t, freq_after ss f, last (c # fs)], g')"
proof (induction fs ks ss arbitrary: t f c g rule: list_induct3)
  case Nil
  then show ?case
    by (simp add: time_after_def freq_after_def)
next
  case (Cons x xs y ys z zs)
  from Cons.prems have pos: "positive_config xs ys zs"
    and x: "0 < x" "0 < fst y" "0 < snd y" "0 < fst z" "0 < snd z"
    by (simp_all add: positive_config_def)
  have c2: "conv2d_same [b, t, f, c] x y z = Inr [b, ceil_div t (fst z), ceil_div f (snd z), x]"
    using x by (simp add: conv2d_same_def)
  from Cons.IH[OF pos] obtain g' where
    "conv_loop F tr (zip xs (zip ys zs)) [b, ceil_div t (fst z), ceil_div f (snd z), x]
       (add_layer (Dropout (conv_dropout_rate F) tr)
         (add_layer (Minimum (relu_cutoff F)) (add_layer (Conv2D x y z) g)))
     = (Inr [b, time_after zs (ceil_div t (fst z)), freq_after zs (ceil_div f (snd z)),
             last (x # xs)], g')"
    by blast
  then show ?case
    using c2 by (simp add: time_after_def freq_after_def)
qed

lemma conv_loop_default:
  "fst (conv_loop F tr (zip [32, 32, 96] (zip default_kernel_sizes default_strides)) [B, T, W, 1] g)
     = Inr [B, ceil_div T 2, ceil_div (ceil_div (ceil_div W 2) 2) 2, 96]"
  by (simp add: default_kernel_sizes_def default_strides_def conv2d_same_def ceil_div_Suc_0)

subsection \<open>What a successful call went through\<close>

lemma conv_layers_Inr:
  assumes "conv_layers F sequences filters kernel_sizes strides training g
             = (Inr (output, seq_length), g')"
  shows "\<exists>conv_out g1.
           length filters = length kernel_sizes \<and> length kernel_sizes = length strides
           \<and> filters \<noteq> []
           \<and> conv_loop F training (zip filters (zip kernel_sizes strides)) sequences g
               = (Inr conv_out, g1)
           \<and> tf_reshape conv_out (hd conv_out) (10 * last filters) = Inr output
           \<and> seq_length = tf_tile [output ! 1] (output ! 0)"
  using assms
  by (auto simp: conv_layers_def split: if_splits prod.splits sum.splits list.splits)

lemma example_run:
  "conv_layers_default example_flags [2, 100, 80, 1] empty_graph
     = (Inr ([2, 50, 960], [50, 50]),
        snd (conv_layers_default example_flags [2, 100, 80, 1] empty_graph))"
  by (simp add: conv_layers_default_def conv_layers_def example_flags_def default_kernel_sizes_def
      default_strides_def conv2d_same_def ceil_div_def tf_reshape_def tf_tile_single
      replicate_two Let_def)

subsection \<open>The default configuration on 80 and on 40 frequency bins\<close>

lemma conv_layers_default_80:
  assumes "0 < B"
  shows "fst (conv_layers F [B, T, 80, 1] [32, 32, 96] default_kernel_sizes default_strides tr g)
           = Inr ([B, ceil_div T 2, 10 * 96], replicate B (ceil_div T 2))"
proof -
  have w: "ceil_div (ceil_div (ceil_div 80 2) 2) 2 = 10"
    by (simp add: ceil_div_def)
  have n: "prod_list [B, ceil_div T 2, 10, 96] = (B * 960) * ceil_div T 2"
    by simp
  have r: "tf_reshape [B, ceil_div T 2, 10, 96] B (10 * 96) = Inr [B, ceil_div T 2, 960]"
    unfolding tf_reshape_def Let_def n using assms by simp
  obtain r1 g1 where l:
    "conv_loop F tr (zip [32, 32, 96] (zip default_kernel_sizes default_strides)) [B, T, 80, 1] g
       = (r1, g1)"
    by (cases "conv_loop F tr (zip [32, 32, 96] (zip default_kernel_sizes default_strides))
                 [B, T, 80, 1] g")
  with conv_loop_default[of F tr B T 80 g] w have "r1 = Inr [B, ceil_div T 2, 10, 96]"
    by simp
  with l r show ?thesis
    by (simp add: conv_layers_def default_kernel_sizes_def default_strides_def tf_tile_single)
qed

lemma conv_layers_default_40:
  assumes "0 < B" and "even (ceil_div T 2)"
  shows "fst (conv_layers F [B, T, 40, 1] [32, 32, 96] default_kernel_sizes default_strides tr g)
           = Inr ([B, ceil_div T 2 div 2, 10 * 96], replicate B (ceil_div T 2 div 2))"
proof -
  have w: "ceil_div (ceil_div (ceil_div 40 2) 2) 2 = 5"
    by (simp add: ceil_div_def)
  from assms(2) obtain q where q: "ceil_div T 2 = 2 * q"
    by (auto elim: evenE)
  have n: "prod_list [B, ceil_div T 2, 5, 96] = (B * 960) * q"
    by (simp add: q)
  have r: "tf_reshape [B, ceil_div T 2, 5, 96] B (10 * 96) = Inr [B, q, 960]"
    unfolding tf_reshape_def Let_def n using assms by simp
  obtain r1 g1 where l:
    "conv_loop F tr (zip [32, 32, 96] (zip default_kernel_sizes default_strides)) [B, T, 40, 1] g
       = (r1, g1)"
    by (cases "conv_loop F tr (zip [32, 32, 96] (zip default_kernel_sizes default_strides))
                 [B, T, 40, 1] g")
  with conv_loop_default[of F tr B T 40 g] w have "r1 = Inr [B, ceil_div T 2, 5, 96]"
    by simp
  with l r q show ?thesis
    by (simp add: conv_layers_def default_kernel_sizes_def default_strides_def tf_tile_single)
qed

text \<open>
  With 40 frequency bins and an odd number of remaining time steps the reshape has no
  whole number of rows of width \<open>10 * 96\<close> to give.
\<close>

lemma conv_layers_default_40_odd:
  assumes "odd (ceil_div T 2)"
  shows "fst (conv_layers F [B, T, 40, 1] [32, 32, 96] default_kernel_sizes default_strides tr g)
           = Inl OpError"
proof -
  have w: "ceil_div (ceil_div (ceil_div 40 2) 2) 2 = 5"
    by (simp add: ceil_div_def)
  have r: "tf_reshape [B, ceil_div T 2, 5, 96] B (10 * 96) = Inl OpError"
  proof (cases "B = 0")
    case True
    then show ?thesis by (simp add: tf_reshape_def)
  next
    case False
    from assms obtain q where q: "ceil_div T 2 = 2 * q + 1"
      by (auto elim: oddE)
    have "prod_list [B, ceil_div T 2, 5, 96] = q * (B * 960) + B * 480"
      by (simp add: q algebra_simps)
    then have "prod_list [B, ceil_div T 2, 5, 96] mod (B * 960) = (B * 480) mod (B * 960)"
      by (simp only: mod_mult_self3)
    also have "\<dots> = B * 480"
      using False by simp
    finally have "prod_list [B, ceil_div T 2, 5, 96] mod (B * (10 * 96)) \<noteq> 0"
      using False by simp
    with False show ?thesis
      by (simp add: tf_reshape_def Let_def)
  qed
  obtain r1 g1 where l:
    "conv_loop F tr (zip [32, 32, 96] (zip default_kernel_sizes default_strides)) [B, T, 40, 1] g
       = (r1, g1)"
    by (cases "conv_loop F tr (zip [32, 32, 96] (zip default_kernel_sizes default_strides))
                 [B, T, 40, 1] g")
  with conv_loop_default[of F tr B T 40 g] w have "r1 = Inr [B, ceil_div T 2, 5, 96]"
    by simp
  with l r show ?thesis
    by (simp add: conv_layers_def default_kernel_sizes_def default_strides_def tf_tile_single)
qed

subsection \<open>The sequence-length vector\<close>

text \<open>
  Claim C1. Whenever \<open>conv_layers\<close> returns, on any input shape and any configuration, the
  sequence-length vector has one entry per batch element (the batch size is axis 0 of the
  input and of the reshaped output), all entries are the same, and each is the size of
  axis 1 of the reshaped output. The function takes the padded batch only; the true
  lengths of the examples are not among its arguments, so they cannot change the vector.
\<close>

theorem conv_layers_seq_length:
  assumes "conv_layers F sequences filters kernel_sizes strides training g
             = (Inr (output, seq_length), g')"
  shows "length sequences = 4 \<and> length output = 3 \<and> output ! 0 = sequences ! 0
         \<and> length seq_length = sequences ! 0
         \<and> seq_length = replicate (sequences ! 0) (output ! 1)"
proof -
  from conv_layers_Inr[OF assms] obtain conv_out g1 where
    len: "length filters = length kernel_sizes" "length kernel_sizes = length strides"
    and ne: "filters \<noteq> []"
    and loop: "conv_loop F training (zip filters (zip kernel_sizes strides)) sequences g
                 = (Inr conv_out, g1)"
    and rs: "tf_reshape conv_out (hd conv_out) (10 * last filters) = Inr output"
    and sl: "seq_length = tf_tile [output ! 1] (output ! 0)"
    by blast
  from len ne have "zip filters (zip kernel_sizes strides) \<noteq> []"
    by (cases filters; cases kernel_sizes; cases strides) auto
  from conv_loop_Inr[OF loop this]
  have c: "length sequences = 4" "length conv_out = 4" "conv_out ! 0 = sequences ! 0"
    by simp_all
  then have hd: "hd conv_out = sequences ! 0"
    by (cases conv_out) auto
  from tf_reshape_Inr[OF rs] hd
  have out: "output = [sequences ! 0,
                       prod_list conv_out div (sequences ! 0 * (10 * last filters)),
                       10 * last filters]"
    by simp
  have "length output = 3" "output ! 0 = sequences ! 0"
    by (subst out, simp)+
  with sl c show ?thesis
    by (simp add: tf_tile_single)
qed

text \<open>
  The theorem at a batch of two spectrograms padded to 100 frames of 80 bins, under the
  default configuration: 50 frames remain, and both entries are 50.
\<close>

theorem conv_layers_seq_length_witness:
  "fst (conv_layers_default example_flags [2, 100, 80, 1] empty_graph)
     = Inr ([2, 50, 960], [50, 50])
   \<and> [50, 50] = replicate ([2, 100, 80, 1] ! 0) ([2, 50, 960 :: nat] ! 1)"
proof -
  note run = example_run[unfolded conv_layers_default_def]
  from conv_layers_seq_length[OF run]
  have "[50, 50] = replicate ([2, 100, 80, 1] ! 0) ([2, 50, 960 :: nat] ! 1)"
    by blast
  moreover have "fst (conv_layers_default example_flags [2, 100, 80, 1] empty_graph)
      = Inr ([2, 50, 960], [50, 50])"
    by (subst example_run) (rule fst_conv)
  ultimately show ?thesis by blast
qed

subsection \<open>The length check\<close>

text \<open>
  Claim C3, as stated, fails: three sequences of equal length do not make the call
  succeed. With three empty sequences the check passes, the loop builds nothing, and
  \<^verbatim>\<open>filters[-1]\<close> raises \<open>IndexError\<close>. With the three default sequences of length 3
  and an input of shape \<open>[1, 2, 40, 1]\<close> the layers are built and leave
  \<open>1 * 1 * 5 * 96\<close> elements, which the reshape cannot arrange in rows of width
  \<open>10 * 96\<close>.
\<close>

theorem conv_layers_length_check_counterexample:
  "length ([] :: nat list) = length ([] :: (nat \<times> nat) list)
   \<and> length ([] :: (nat \<times> nat) list) = length ([] :: (nat \<times> nat) list)
   \<and> conv_layers example_flags [2, 100, 80, 1] [] [] [] True empty_graph
       = (Inl IndexError, empty_graph)
   \<and> length [32, 32, 96 :: nat] = length default_kernel_sizes
   \<and> length default_kernel_sizes = length default_strides
   \<and> fst (conv_layers example_flags [1, 2, 40, 1] [32, 32, 96] default_kernel_sizes
            default_strides True empty_graph)
       = Inl OpError"
  by (simp add: conv_layers_def default_kernel_sizes_def default_strides_def conv2d_same_def
      ceil_div_def tf_reshape_def Let_def)

text \<open>
  Claim C3, amended. If two of the three sequences differ in length, \<open>conv_layers\<close> raises
  the mismatch \<open>ValueError\<close> and the graph is as before the call: no layer operation was
  built. If the three lengths are equal, that error is never raised; and the call
  succeeds when moreover the sequences are not empty, all their entries are positive, the
  input has rank 4 with a batch size above 0, and the time and frequency sizes left
  after the strides have a product that 10 divides. The result is then the shape
  \<open>[batch, time * frequency div 10, 10 * filters[-1]]\<close> with a constant length vector.
\<close>

theorem conv_layers_length_check:
  "(\<not> (length filters = length kernel_sizes \<and> length kernel_sizes = length strides) \<longrightarrow>
      conv_layers F sequences filters kernel_sizes strides training g
        = (Inl (ValueError mismatch_message), g))
   \<and> (length filters = length kernel_sizes \<and> length kernel_sizes = length strides \<longrightarrow>
        fst (conv_layers F sequences filters kernel_sizes strides training g)
          \<noteq> Inl (ValueError mismatch_message)
        \<and> (filters \<noteq> [] \<and> positive_config filters kernel_sizes strides
             \<and> sequences = [b, t, f, c] \<and> 0 < b
             \<and> (time_after strides t * freq_after strides f) mod 10 = 0 \<longrightarrow>
            (\<exists>g'. conv_layers F sequences filters kernel_sizes strides training g
               = (Inr ([b, (time_after strides t * freq_after strides f) div 10,
                        10 * last filters],
                       replicate b ((time_after strides t * freq_after strides f) div 10)),
                  g'))))"
proof (intro conjI impI)
  assume "\<not> (length filters = length kernel_sizes \<and> length kernel_sizes = length strides)"
  then show "conv_layers F sequences filters kernel_sizes strides training g
        = (Inl (ValueError mismatch_message), g)"
    by (simp add: conv_layers_def)
next
  assume len: "length filters = length kernel_sizes \<and> length kernel_sizes = length strides"
  show "fst (conv_layers F sequences filters kernel_sizes strides training g)
          \<noteq> Inl (ValueError mismatch_message)"
  proof
    assume a: "fst (conv_layers F sequences filters kernel_sizes strides training g)
          = Inl (ValueError mismatch_message)"
    obtain r g1 where loop:
      "conv_loop F training (zip filters (zip kernel_sizes strides)) sequences g = (r, g1)"
      by (cases "conv_loop F training (zip filters (zip kernel_sizes strides)) sequences g")
    show False
    proof (cases r)
      case (Inl e)
      with loop have "e = OpError"
        by (auto dest: conv_loop_Inl)
      with a len loop Inl show False
        by (simp add: conv_layers_def)
    next
      case (Inr out)
      with a len loop show False
        by (auto simp: conv_layers_def tf_reshape_def Let_def split: list.splits if_splits)
    qed
  qed
next
  assume len: "length filters = length kernel_sizes \<and> length kernel_sizes = length strides"
  assume h: "filters \<noteq> [] \<and> positive_config filters kernel_sizes strides
             \<and> sequences = [b, t, f, c] \<and> 0 < b
             \<and> (time_after strides t * freq_after strides f) mod 10 = 0"
  define t' where "t' = time_after strides t"
  define f' where "f' = freq_after strides f"
  from len h conv_loop_positive[of filters kernel_sizes strides F training b t f c g]
  obtain g1 where loop:
    "conv_loop F training (zip filters (zip kernel_sizes strides)) sequences g
       = (Inr [b, t', f', last filters], g1)"
    by (auto simp: t'_def f'_def)
  from h have "last filters \<in> set filters"
    by simp
  with h have lf: "0 < last filters"
    by (simp add: positive_config_def list_all_iff)
  from h have "10 dvd t' * f'"
    by (simp add: t'_def f'_def mod_eq_0_iff_dvd)
  then obtain q where q: "t' * f' = 10 * q"
    by (auto simp: dvd_def)
  have n: "prod_list [b, t', f', last filters] = (b * (10 * last filters)) * q"
    using q by (simp add: algebra_simps)
  have k: "b * (10 * last filters) \<noteq> 0"
    using h lf by simp
  have "tf_reshape [b, t', f', last filters] b (10 * last filters) = Inr [b, q, 10 * last filters]"
    unfolding tf_reshape_def Let_def n using k by simp
  moreover have "t' * f' div 10 = q"
    using q by simp
  ultimately show "\<exists>g'. conv_layers F sequences filters kernel_sizes strides training g
               = (Inr ([b, (time_after strides t * freq_after strides f) div 10,
                        10 * last filters],
                       replicate b ((time_after strides t * freq_after strides f) div 10)),
                  g')"
    using len h loop
    by (simp add: conv_layers_def tf_tile_single t'_def[symmetric] f'_def[symmetric])
qed

text \<open>
  The amended claim at two filter counts against three kernel sizes and strides (the
  mismatch error, graph untouched) and at the default configuration on two spectrograms
  of 100 frames and 80 bins (success).
\<close>

theorem conv_layers_length_check_witness:
  "conv_layers example_flags [2, 100, 80, 1] [32, 32] default_kernel_sizes default_strides True
     empty_graph
     = (Inl (ValueError mismatch_message), empty_graph)
   \<and> fst (conv_layers example_flags [2, 100, 80, 1] [32, 32, 96] default_kernel_sizes
            default_strides True empty_graph)
       \<noteq> Inl (ValueError mismatch_message)
   \<and> (\<exists>g'. conv_layers example_flags [2, 100, 80, 1] [32, 32, 96] default_kernel_sizes
              default_strides True empty_graph
         = (Inr ([2, 50, 960], [50, 50]), g'))"
proof -
  have t: "time_after default_strides 100 = 50" and f: "freq_after default_strides 80 = 10"
    by (simp_all add: time_after_def freq_after_def default_strides_def ceil_div_def)
  have p: "positive_config [32, 32, 96] default_kernel_sizes default_strides"
    by (simp add: positive_config_def default_kernel_sizes_def default_strides_def)
  have l2: "\<not> (length [32, 32 :: nat] = length default_kernel_sizes
               \<and> length default_kernel_sizes = length default_strides)"
    by (simp add: default_kernel_sizes_def default_strides_def)
  have l3: "length [32, 32, 96 :: nat] = length default_kernel_sizes
               \<and> length default_kernel_sizes = length default_strides"
    by (simp add: default_kernel_sizes_def default_strides_def)
  from conv_layers_length_check[of "[32, 32]" default_kernel_sizes default_strides example_flags
      "[2, 100, 80, 1]" True empty_graph] l2
  have a: "conv_layers example_flags [2, 100, 80, 1] [32, 32] default_kernel_sizes
             default_strides True empty_graph
     = (Inl (ValueError mismatch_message), empty_graph)"
    by blast
  from conv_layers_length_check[of "[32, 32, 96]" default_kernel_sizes default_strides
      example_flags "[2, 100, 80, 1]" True empty_graph 2 100 80 1] l3 p t f
  have b: "fst (conv_layers example_flags [2, 100, 80, 1] [32, 32, 96] default_kernel_sizes
                  default_strides True empty_graph)
       \<noteq> Inl (ValueError mismatch_message)"
    and c: "\<exists>g'. conv_layers example_flags [2, 100, 80, 1] [32, 32, 96] default_kernel_sizes
                   default_strides True empty_graph
         = (Inr ([2, 50, 960], [50, 50]), g')"
    by (simp_all add: replicate_two)
  from a b c show ?thesis by blast
qed

subsection \<open>The feature width\<close>

text \<open>
  Claim C4, as stated, fails: the final axis is not the remaining frequency size times
  the last filter count. Under the configuration of the claim an input of shape
  \<open>[1, 4, 40, 1]\<close> leaves 5 frequency bins after the three layers; the reshape still
  gives width \<open>960 = 10 * 96\<close>, not \<open>5 * 96\<close>, by folding the two remaining time steps
  into one row.
\<close>

theorem conv_layers_feature_width_counterexample:
  "fst (conv_loop example_flags True (zip [32, 32, 96] (zip default_kernel_sizes default_strides))
          [1, 4, 40, 1] empty_graph) = Inr [1, 2, 5, 96]
   \<and> fst (conv_layers example_flags [1, 4, 40, 1] [32, 32, 96] default_kernel_sizes default_strides
            True empty_graph) = Inr ([1, 1, 960], [1])
   \<and> [1, 1, 960 :: nat] ! 2 \<noteq> [1, 2, 5, 96] ! 2 * 96"
  by (simp add: conv_layers_def example_flags_def default_kernel_sizes_def
      default_strides_def conv2d_same_def ceil_div_def tf_reshape_def tf_tile_single Let_def)

text \<open>
  Claim C4, amended. Whenever \<open>conv_layers\<close> returns, the final axis of the reshaped
  output is 10 times the last filter count, the 10 being a constant of the code, and
  axis 1 is the product of the remaining time and frequency sizes divided by 10; the
  final axis is the remaining frequency size times the last filter count exactly when 10
  frequency bins remain. For filters \<open>(32, 32, 96)\<close> with the default kernel sizes and
  strides that is so on an input \<open>[B, T, 80, 1]\<close> with \<open>B > 0\<close>: 10 bins remain and the
  width is \<open>10 * 96\<close>. On \<open>[B, T, 40, 1]\<close> 5 bins remain; when \<open>\<lceil>T / 2\<rceil>\<close> is even the
  width is still \<open>10 * 96\<close> and the time axis is halved.
\<close>

theorem conv_layers_feature_width:
  "(conv_layers F sequences filters kernel_sizes strides training g
      = (Inr (output, seq_length), g') \<longrightarrow>
      (\<exists>conv_out g1.
         conv_loop F training (zip filters (zip kernel_sizes strides)) sequences g
           = (Inr conv_out, g1)
         \<and> length conv_out = 4 \<and> conv_out ! 3 = last filters
         \<and> length output = 3 \<and> output ! 2 = 10 * last filters
         \<and> output ! 1 = (conv_out ! 1 * conv_out ! 2) div 10
         \<and> (output ! 2 = conv_out ! 2 * conv_out ! 3 \<longleftrightarrow> conv_out ! 2 = 10)))
   \<and> (0 < B \<longrightarrow>
        fst (conv_loop F training (zip [32, 32, 96] (zip default_kernel_sizes default_strides))
               [B, T, 80, 1] g) = Inr [B, ceil_div T 2, 10, 96]
        \<and> fst (conv_layers F [B, T, 80, 1] [32, 32, 96] default_kernel_sizes default_strides
                 training g)
            = Inr ([B, ceil_div T 2, 10 * 96], replicate B (ceil_div T 2)))
   \<and> (0 < B \<and> even (ceil_div T 2) \<longrightarrow>
        fst (conv_loop F training (zip [32, 32, 96] (zip default_kernel_sizes default_strides))
               [B, T, 40, 1] g) = Inr [B, ceil_div T 2, 5, 96]
        \<and> fst (conv_layers F [B, T, 40, 1] [32, 32, 96] default_kernel_sizes default_strides
                 training g)
            = Inr ([B, ceil_div T 2 div 2, 10 * 96], replicate B (ceil_div T 2 div 2)))"
proof (intro conjI impI)
  assume run: "conv_layers F sequences filters kernel_sizes strides training g
                 = (Inr (output, seq_length), g')"
  from conv_layers_Inr[OF run] obtain conv_out g1 where
    len: "length filters = length kernel_sizes" "length kernel_sizes = length strides"
    and ne: "filters \<noteq> []"
    and loop: "conv_loop F training (zip filters (zip kernel_sizes strides)) sequences g
                 = (Inr conv_out, g1)"
    and rs: "tf_reshape conv_out (hd conv_out) (10 * last filters) = Inr output"
    by blast
  from len ne have cfg: "zip filters (zip kernel_sizes strides) \<noteq> []"
    by (cases filters; cases kernel_sizes; cases strides) auto
  from conv_loop_Inr[OF loop cfg] last_zip3[OF len ne]
  have c: "length conv_out = 4" "conv_out ! 3 = last filters" "last filters \<noteq> 0"
    by simp_all
  then obtain b t f where conv_out: "conv_out = [b, t, f, last filters]"
    using list4[of conv_out] by auto
  from tf_reshape_Inr[OF rs] conv_out
  have b: "b \<noteq> 0"
    and out: "output = [b, (b * t * f * last filters) div (b * (10 * last filters)),
                        10 * last filters]"
    by (simp_all add: mult.assoc)
  have "(b * t * f * last filters) div (b * (10 * last filters))
          = ((b * last filters) * (t * f)) div ((b * last filters) * 10)"
    by (simp add: algebra_simps)
  also have "\<dots> = (t * f) div 10"
    using b c(3) by (subst div_mult_mult1) simp_all
  finally have "(b * t * f * last filters) div (b * (10 * last filters)) = (t * f) div 10" .
  with out have "output = [b, (t * f) div 10, 10 * last filters]"
    by simp
  with loop c conv_out
  show "\<exists>conv_out g1.
         conv_loop F training (zip filters (zip kernel_sizes strides)) sequences g
           = (Inr conv_out, g1)
         \<and> length conv_out = 4 \<and> conv_out ! 3 = last filters
         \<and> length output = 3 \<and> output ! 2 = 10 * last filters
         \<and> output ! 1 = (conv_out ! 1 * conv_out ! 2) div 10
         \<and> (output ! 2 = conv_out ! 2 * conv_out ! 3 \<longleftrightarrow> conv_out ! 2 = 10)"
    by (auto simp: mult.commute)
next
  show "fst (conv_loop F training (zip [32, 32, 96] (zip default_kernel_sizes default_strides))
               [B, T, 80, 1] g) = Inr [B, ceil_div T 2, 10, 96]"
    using conv_loop_default[of F training B T 80 g] by (simp add: ceil_div_def)
next
  assume "0 < B"
  then show "fst (conv_layers F [B, T, 80, 1] [32, 32, 96] default_kernel_sizes default_strides
                 training g)
            = Inr ([B, ceil_div T 2, 10 * 96], replicate B (ceil_div T 2))"
    by (rule conv_layers_default_80)
next
  show "fst (conv_loop F training (zip [32, 32, 96] (zip default_kernel_sizes default_strides))
               [B, T, 40, 1] g) = Inr [B, ceil_div T 2, 5, 96]"
    using conv_loop_default[of F training B T 40 g] by (simp add: ceil_div_def)
next
  assume "0 < B \<and> even (ceil_div T 2)"
  then have "0 < B" and "even (ceil_div T 2)"
    by simp_all
  then show "fst (conv_layers F [B, T, 40, 1] [32, 32, 96] default_kernel_sizes default_strides
                 training g)
            = Inr ([B, ceil_div T 2 div 2, 10 * 96], replicate B (ceil_div T 2 div 2))"
    by (rule conv_layers_default_40)
qed

text \<open>
  The amended claim at the default configuration with \<open>B = 2\<close> and \<open>T = 100\<close>: on 80
  bins the loop leaves \<open>[2, 50, 10, 96]\<close> and the output is \<open>[2, 50, 960]\<close>; on 40 bins it
  leaves \<open>[2, 50, 5, 96]\<close> and the output is \<open>[2, 25, 960]\<close>.
\<close>

theorem conv_layers_feature_width_witness:
  "conv_layers example_flags [2, 100, 80, 1] [32, 32, 96] default_kernel_sizes default_strides True
     empty_graph
     = (Inr ([2, 50, 960], [50, 50]),
        snd (conv_layers_default example_flags [2, 100, 80, 1] empty_graph))
   \<and> [2, 50, 960] ! 2 = 10 * last [32, 32, 96 :: nat]
   \<and> (0 :: nat) < 2 \<and> even (ceil_div 100 2)
   \<and> fst (conv_loop example_flags True (zip [32, 32, 96] (zip default_kernel_sizes default_strides))
            [2, 100, 80, 1] empty_graph) = Inr [2, 50, 10, 96]
   \<and> fst (conv_layers example_flags [2, 100, 40, 1] [32, 32, 96] default_kernel_sizes
            default_strides True empty_graph)
       = Inr ([2, 25, 960], [25, 25])"
proof -
  have run: "conv_layers example_flags [2, 100, 80, 1] [32, 32, 96] default_kernel_sizes
               default_strides True empty_graph
     = (Inr ([2, 50, 960], [50, 50]),
        snd (conv_layers_default example_flags [2, 100, 80, 1] empty_graph))"
    using example_run by (simp add: conv_layers_default_def example_flags_def)
  have c: "ceil_div 100 2 = 50"
    by (simp add: ceil_div_def)
  have h: "(0 :: nat) < 2" "even (ceil_div 100 2)"
    by (simp_all add: c)
  note inst = conv_layers_feature_width[of example_flags "[2, 100, 80, 1]" "[32, 32, 96]"
      default_kernel_sizes default_strides True empty_graph "[2, 50, 960]" "[50, 50]"
      "snd (conv_layers_default example_flags [2, 100, 80, 1] empty_graph)" 2 100]
  from inst run have "[2, 50, 960] ! 2 = 10 * last [32, 32, 96 :: nat]"
    by blast
  moreover from inst h
  have "fst (conv_loop example_flags True
               (zip [32, 32, 96] (zip default_kernel_sizes default_strides))
               [2, 100, 80, 1] empty_graph) = Inr [2, 50, 10, 96]"
    by (simp add: c)
  moreover from inst h
  have "fst (conv_layers example_flags [2, 100, 40, 1] [32, 32, 96] default_kernel_sizes
               default_strides True empty_graph)
          = Inr ([2, 25, 960], [25, 25])"
    by (simp add: c replicate_two)
  ultimately show ?thesis
    using run h by blast
qed

section \<open>Properties of \<open>AdamOptimizerLogger\<close>\<close>

text \<open>
  Claim C2. For every gradient and variable whose two slots exist (the optimizer creates
  them before it applies a gradient), and for every base-class update rule, the
  instrumented \<open>_apply_dense\<close> returns exactly what the base class's \<open>_apply_dense\<close>
  returns on the same optimizer, gradient and variable. All it does besides is to append
  the histogram of the step and the scalar of the estimated learning rate to the
  summaries; layers, collections and variables of the graph stay as they were.
\<close>

theorem AdamOptimizerLogger_same_update:
  assumes "get_slot self var ''m'' \<noteq> None" and "get_slot self var ''v'' \<noteq> None"
  shows "fst (AdamOptimizerLogger_apply_dense super_apply_dense self grad var g)
           = super_apply_dense self grad var
         \<and> (\<exists>step current_lr.
               snd (AdamOptimizerLogger_apply_dense super_apply_dense self grad var g)
                 = g\<lparr>summaries := summaries g
                        @ [Histogram ''step'' step, Scalar ''estimated_lr'' current_lr]\<rparr>)"
  using assms
  by (auto simp: AdamOptimizerLogger_apply_dense_def get_beta_accumulators_def Let_def
      tf_summary_histogram_def tf_summary_scalar_def split: option.splits)

text \<open>The theorem at an optimizer with both slots of the variable \<open>w\<close>.\<close>

theorem AdamOptimizerLogger_same_update_witness:
  "get_slot example_optimizer (Variable ''w'') ''m'' \<noteq> None
   \<and> get_slot example_optimizer (Variable ''w'') ''v'' \<noteq> None
   \<and> fst (AdamOptimizerLogger_apply_dense example_update example_optimizer (Variable ''grad'')
            (Variable ''w'') empty_graph)
       = example_update example_optimizer (Variable ''grad'') (Variable ''w'')"
proof -
  have m: "get_slot example_optimizer (Variable ''w'') ''m'' \<noteq> None"
    and v: "get_slot example_optimizer (Variable ''w'') ''v'' \<noteq> None"
    by (simp_all add: get_slot_def example_optimizer_def)
  from AdamOptimizerLogger_same_update[OF m v] m v show ?thesis
    by blast
qed

section \<open>Properties of \<open>bidirectional_cells\<close>\<close>

lemma comprehension_replicate:
  "comprehension (map (\<lambda>_. Inr x) ns) = Inr (replicate (length ns) x)"
  by (induction ns) simp_all

text \<open>The source's \<open>min(1.0, max(0.0, 1.0 - dropout))\<close> is the specification's clamp.\<close>

lemma keep_prob_clamp: "min 1 (max 0 (1 - d)) = clamp_spec (1 - d) 0 (1::real)"
  by (simp add: clamp_spec_def min_def max_def)

text \<open>
  The keep probability always lies in \<open>[0, 1]\<close>, so the dropout wrapper accepts it and
  the function returns two lists of \<open>num_layers\<close> equal cells.
\<close>

lemma bidirectional_cells_eq:
  "bidirectional_cells F num_units num_layers dropout =
     (let c = \<lparr>cell = BasicRNNCell num_units Tanh,
               input_keep_prob = min 1 (max 0 (1 - dropout)),
               output_keep_prob = min 1 (max 0 (1 - dropout)),
               seed = random_seed F\<rparr>
      in Inr (replicate (nat num_layers) c, replicate (nat num_layers) c))"
proof -
  define kp where "kp = min 1 (max 0 (1 - dropout))"
  have "0 \<le> kp" "kp \<le> 1"
    by (simp_all add: kp_def)
  then have "create_cell F num_units kp
      = Inr \<lparr>cell = BasicRNNCell num_units Tanh, input_keep_prob = kp, output_keep_prob = kp,
              seed = random_seed F\<rparr>"
    by (simp add: create_cell_def DropoutWrapper_def)
  then show ?thesis
    by (simp add: bidirectional_cells_def Let_def kp_def[symmetric] comprehension_replicate
        range_py_def)
qed

text \<open>
  Claim C5. For every dropout value \<open>bidirectional_cells\<close> returns a forward and a backward
  list, and every cell of either list has input and output keep probability
  \<open>clamp(1 - dropout, 0, 1)\<close>: 1 when dropout is 0, and 0 when dropout is 1.
\<close>

theorem bidirectional_cells_keep_prob:
  "\<exists>fw_cells bw_cells.
     bidirectional_cells F num_units num_layers dropout = Inr (fw_cells, bw_cells)
     \<and> length fw_cells = nat num_layers \<and> length bw_cells = nat num_layers
     \<and> (\<forall>c \<in> set fw_cells \<union> set bw_cells.
          input_keep_prob c = clamp_spec (1 - dropout) 0 1
          \<and> output_keep_prob c = clamp_spec (1 - dropout) 0 1
          \<and> (dropout = 0 \<longrightarrow> input_keep_prob c = 1 \<and> output_keep_prob c = 1)
          \<and> (dropout = 1 \<longrightarrow> input_keep_prob c = 0 \<and> output_keep_prob c = 0))"
  by (auto simp: bidirectional_cells_eq Let_def keep_prob_clamp clamp_spec_def)

text \<open>The theorem at two layers, once with dropout 0 and once with dropout 1.\<close>

theorem bidirectional_cells_keep_prob_witness:
  "(\<exists>fw_cells bw_cells.
      bidirectional_cells example_flags 128 2 0 = Inr (fw_cells, bw_cells)
      \<and> hd fw_cells \<in> set fw_cells \<union> set bw_cells
      \<and> input_keep_prob (hd fw_cells) = 1 \<and> output_keep_prob (hd fw_cells) = 1)
   \<and> (\<exists>fw_cells bw_cells.
      bidirectional_cells example_flags 128 2 1 = Inr (fw_cells, bw_cells)
      \<and> hd bw_cells \<in> set fw_cells \<union> set bw_cells
      \<and> input_keep_prob (hd bw_cells) = 0 \<and> output_keep_prob (hd bw_cells) = 0)"
proof -
  from bidirectional_cells_keep_prob[of example_flags 128 2 0]
  obtain fw bw where a: "bidirectional_cells example_flags 128 2 0 = Inr (fw, bw)"
    and l: "length fw = nat 2"
    and k: "\<forall>c \<in> set fw \<union> set bw.
              (0 = (0::real) \<longrightarrow> input_keep_prob c = 1 \<and> output_keep_prob c = 1)"
    by blast
  from l have "fw \<noteq> []"
    by auto
  then have "hd fw \<in> set fw \<union> set bw"
    by simp
  with a k have first: "\<exists>fw_cells bw_cells.
      bidirectional_cells example_flags 128 2 0 = Inr (fw_cells, bw_cells)
      \<and> hd fw_cells \<in> set fw_cells \<union> set bw_cells
      \<and> input_keep_prob (hd fw_cells) = 1 \<and> output_keep_prob (hd fw_cells) = 1"
    by blast
  from bidirectional_cells_keep_prob[of example_flags 128 2 1]
  obtain fw' bw' where a': "bidirectional_cells example_flags 128 2 1 = Inr (fw', bw')"
    and l': "length bw' = nat 2"
    and k': "\<forall>c \<in> set fw' \<union> set bw'.
               (1 = (1::real) \<longrightarrow> input_keep_prob c = 0 \<and> output_keep_prob c = 0)"
    by blast
  from l' have "bw' \<noteq> []"
    by auto
  then have "hd bw' \<in> set fw' \<union> set bw'"
    by simp
  with a' k' have "\<exists>fw_cells bw_cells.
      bidirectional_cells example_flags 128 2 1 = Inr (fw_cells, bw_cells)
      \<and> hd bw_cells \<in> set fw_cells \<union> set bw_cells
      \<and> input_keep_prob (hd bw_cells) = 0 \<and> output_keep_prob (hd bw_cells) = 0"
    by blast
  with first show ?thesis
    by blast
qed

text \<open>
  Claim C10. Called without a dropout argument, \<open>bidirectional_cells\<close> uses the default
  \<open>dropout = 1.0\<close>: it returns the two lists, and every forward and backward cell has
  input and output keep probability 0.
\<close>

theorem bidirectional_cells_default_keep_prob:
  "\<exists>fw_cells bw_cells.
     bidirectional_cells_default F num_units num_layers = Inr (fw_cells, bw_cells)
     \<and> length fw_cells = nat num_layers \<and> length bw_cells = nat num_layers
     \<and> (\<forall>c \<in> set fw_cells \<union> set bw_cells. input_keep_prob c = 0 \<and> output_keep_prob c = 0)"
  by (auto simp: bidirectional_cells_default_def bidirectional_cells_eq Let_def)

text \<open>The theorem at two layers of 128 units.\<close>

theorem bidirectional_cells_default_keep_prob_witness:
  "\<exists>fw_cells bw_cells.
      bidirectional_cells_default example_flags 128 2 = Inr (fw_cells, bw_cells)
      \<and> hd fw_cells \<in> set fw_cells \<union> set bw_cells
      \<and> input_keep_prob (hd fw_cells) = 0 \<and> output_keep_prob (hd fw_cells) = 0"
proof -
  from bidirectional_cells_default_keep_prob[of example_flags 128 2]
  obtain fw bw where a: "bidirectional_cells_default example_flags 128 2 = Inr (fw, bw)"
    and l: "length fw = nat 2"
    and k: "\<forall>c \<in> set fw \<union> set bw. input_keep_prob c = 0 \<and> output_keep_prob c = 0"
    by blast
  from l have "fw \<noteq> []"
    by auto
  then have "hd fw \<in> set fw \<union> set bw"
    by simp
  with a k show ?thesis
    by blast
qed

section \<open>Properties of \<open>variable_with_weight_decay\<close>\<close>

lemma variable_on_cpu_cases:
  "variable_on_cpu name shape init g =
     (if variables g name = None
      then (Inr (Variable name),
            g\<lparr>variables := (variables g)(name \<mapsto>
                 \<lparr>var_shape = shape, var_init = init, var_device = ''/cpu:0''\<rparr>)\<rparr>)
      else (Inl OpError, g))"
  by (simp add: variable_on_cpu_def tf_get_variable_def split: option.splits)

text \<open>
  Claim C7. What \<open>variable_with_weight_decay\<close> returns (the variable, or the error of
  its creation) is what \<open>variable_on_cpu\<close> returns, with or without a weight decay. With
  no weight decay the graph is the one \<open>variable_on_cpu\<close> leaves, so the \<open>losses\<close>
  collection is unchanged. With a weight decay \<open>wd\<close> and a created variable, exactly one
  term is appended to the \<open>losses\<close> collection, and under every valuation of the variables
  its value is \<open>wd\<close> times the sum of the squared entries of the variable, divided by 2.
\<close>

theorem variable_with_weight_decay_losses:
  "fst (variable_with_weight_decay name shape stddev (Some wd) g)
     = fst (variable_with_weight_decay name shape stddev None g)
   \<and> fst (variable_with_weight_decay name shape stddev weight_decay g)
     = fst (variable_on_cpu name shape (TruncatedNormal stddev) g)
   \<and> collections (snd (variable_with_weight_decay name shape stddev None g)) ''losses''
     = collections g ''losses''
   \<and> snd (variable_with_weight_decay name shape stddev None g)
     = snd (variable_on_cpu name shape (TruncatedNormal stddev) g)
   \<and> (\<forall>var. fst (variable_with_weight_decay name shape stddev (Some wd) g) = Inr var \<longrightarrow>
        (\<exists>weight_loss.
           collections (snd (variable_with_weight_decay name shape stddev (Some wd) g)) ''losses''
             = collections g ''losses'' @ [weight_loss]
           \<and> (\<forall>\<sigma>. eval \<sigma> weight_loss = [wd * (\<Sum>x\<leftarrow>eval \<sigma> var. x\<^sup>2) / 2])))"
  by (cases weight_decay)
     (auto simp: variable_with_weight_decay_def variable_on_cpu_cases tf_add_to_collection_def
        Let_def)

text \<open>
  The theorem at a new variable \<open>w\<close> with weight decay \<open>1/2\<close>, its value read where the
  variable holds the entries 1 and 2.
\<close>

theorem variable_with_weight_decay_losses_witness:
  "fst (variable_with_weight_decay ''w'' [3, 4] (1 / 10) (Some (1 / 2)) empty_graph)
     = Inr (Variable ''w'')
   \<and> (\<exists>weight_loss.
         collections (snd (variable_with_weight_decay ''w'' [3, 4] (1 / 10) (Some (1 / 2))
                             empty_graph)) ''losses''
           = collections empty_graph ''losses'' @ [weight_loss]
         \<and> eval (\<lambda>_. [1, 2]) weight_loss
             = [(1 / 2) * (\<Sum>x\<leftarrow>eval (\<lambda>_. [1, 2]) (Variable ''w''). x\<^sup>2) / 2])"
proof -
  have v: "fst (variable_with_weight_decay ''w'' [3, 4] (1 / 10) (Some (1 / 2)) empty_graph)
             = Inr (Variable ''w'')"
    by (simp add: variable_with_weight_decay_def variable_on_cpu_def tf_get_variable_def
        empty_graph_def Let_def)
  from variable_with_weight_decay_losses[of "''w''" "[3, 4]" "1 / 10" "1 / 2" empty_graph None] v
  show ?thesis
    by blast
qed

section \<open>Properties of the git lookups\<close>

text \<open>
  Claim C6. On a detached \<open>HEAD\<close> \<open>git_branch\<close> returns the sentinel \<open>DETACHED HEAD\<close>, as the
  claim says. On a repository without tags \<open>git_latest_tag\<close> returns no sentinel: the
  sorted tag list is empty and \<^verbatim>\<open>tags[-1]\<close> raises \<open>IndexError\<close>.
\<close>

theorem git_latest_tag_no_tags:
  "git_branch (Some detached_repo) = Inr ''DETACHED HEAD''
   \<and> git_latest_tag (Some detached_repo) = Inr ''v0.2.0''
   \<and> git_branch (Some untagged_repo) = Inr ''master''
   \<and> git_latest_tag (Some untagged_repo) = Inl IndexError"
  by (simp add: git_branch_def git_latest_tag_def Repo_def active_branch_def detached_repo_def
      untagged_repo_def)

section \<open>Properties of the deletion functions\<close>

lemma range_py_5: "range_py 5 = [0, 1, 2, 3, 4]"
  by (simp add: range_py_def upt_rec)

lemma os_remove_trace: "trace (snd (os_remove path w)) = trace w @ [Remove path]"
  by (simp add: os_remove_def record_event_def Let_def split: list.splits option.splits)

text \<open>The loop calls \<open>os.remove\<close> at most once per value of \<open>i\<close>.\<close>

lemma remove_loop_removals:
  "removals (trace (snd (remove_loop is path w))) \<le> removals (trace w) + length is"
proof (induction "is" arbitrary: w)
  case Nil
  then show ?case by simp
next
  case (Cons i rest)
  obtain r w1 where r: "os_remove path w = (r, w1)"
    by (cases "os_remove path w")
  with os_remove_trace[of path w] have t: "trace w1 = trace w @ [Remove path]"
    by simp
  show ?case
  proof (cases r)
    case (Inr u)
    with r t show ?thesis
      by (simp add: removals_def)
  next
    case (Inl e)
    have "removals (trace (snd (remove_loop rest path
                                  (record_event (Sleep 1) (record_event (Warn i path) w1)))))
            \<le> removals (trace (record_event (Sleep 1) (record_event (Warn i path) w1)))
               + length rest"
      by (rule Cons.IH)
    with r t Inl show ?thesis
      by (simp add: removals_def record_event_def Let_def)
  qed
qed

lemma remove_loop_all_fail:
  assumes "faults w = [Some e0, Some e1, Some e2, Some e3, Some e4] @ rest"
    and "caught e0" "caught e1" "caught e2" "caught e3" "caught e4"
  shows "remove_loop [0, 1, 2, 3, 4] path w =
           (Inl (RuntimeError path e4),
            w\<lparr>faults := rest,
              trace := trace w @
                [Remove path, Warn 0 path, Sleep 1, Remove path, Warn 1 path, Sleep 1,
                 Remove path, Warn 2 path, Sleep 1, Remove path, Warn 3 path, Sleep 1,
                 Remove path, Warn 4 path]\<rparr>)"
  using assms by (simp add: os_remove_def record_event_def Let_def)

text \<open>
  Claim C8. On an existing file whose next five removals fail with an \<open>OSError\<close> or a
  \<open>ValueError\<close>, \<open>delete_file_if_exists\<close> calls \<open>os.remove\<close> five times, sleeps one second
  after each of the first four failures, and after the fifth raises \<open>RuntimeError\<close> with
  the path and, as its cause, the fifth failure. In no run does it call \<open>os.remove\<close> more
  than five times. On an existing directory whose removal fails,
  \<open>delete_directory_if_exists\<close> raises that failure after the one call of \<open>rmtree\<close>,
  without sleeping or trying again.
\<close>

theorem delete_retry_policy:
  "(files w path = Some File \<and> faults w = map Some es @ rest \<and> length es = 5
      \<and> (\<forall>e \<in> set es. caught e) \<longrightarrow>
      delete_file_if_exists path w =
        (Inl (RuntimeError path (es ! 4)),
         w\<lparr>faults := rest,
           trace := trace w @
             [Remove path, Warn 0 path, Sleep 1, Remove path, Warn 1 path, Sleep 1,
              Remove path, Warn 2 path, Sleep 1, Remove path, Warn 3 path, Sleep 1,
              Remove path, Warn 4 path]\<rparr>))
   \<and> removals (trace (snd (delete_file_if_exists path w))) \<le> removals (trace w) + 5
   \<and> (files w path = Some Dir \<and> faults w = Some e # rest' \<longrightarrow>
        delete_directory_if_exists path w =
          (Inl e, w\<lparr>faults := rest', trace := trace w @ [Rmtree path]\<rparr>))"
proof (intro conjI impI)
  assume h: "files w path = Some File \<and> faults w = map Some es @ rest \<and> length es = 5
      \<and> (\<forall>e \<in> set es. caught e)"
  then obtain e0 e1 e2 e3 e4 where es: "es = [e0, e1, e2, e3, e4]"
    by (auto simp: numeral_eq_Suc length_Suc_conv)
  with h have "faults w = [Some e0, Some e1, Some e2, Some e3, Some e4] @ rest"
    and "caught e0" "caught e1" "caught e2" "caught e3" "caught e4"
    by simp_all
  from remove_loop_all_fail[OF this, of path] h es
  show "delete_file_if_exists path w =
        (Inl (RuntimeError path (es ! 4)),
         w\<lparr>faults := rest,
           trace := trace w @
             [Remove path, Warn 0 path, Sleep 1, Remove path, Warn 1 path, Sleep 1,
              Remove path, Warn 2 path, Sleep 1, Remove path, Warn 3 path, Sleep 1,
              Remove path, Warn 4 path]\<rparr>)"
    by (simp add: delete_file_if_exists_def os_path_exists_def os_path_isfile_def range_py_5)
next
  show "removals (trace (snd (delete_file_if_exists path w))) \<le> removals (trace w) + 5"
    using remove_loop_removals[of "[0, 1, 2, 3, 4]" path w]
    by (simp add: delete_file_if_exists_def range_py_5)
next
  assume "files w path = Some Dir \<and> faults w = Some e # rest'"
  then show "delete_directory_if_exists path w =
          (Inl e, w\<lparr>faults := rest', trace := trace w @ [Rmtree path]\<rparr>)"
    by (simp add: delete_directory_if_exists_def os_path_exists_def os_path_isdir_def
        shutil_rmtree_def record_event_def Let_def)
qed

text \<open>
  The theorem at a world where the next five deletion calls fail: on the file
  \<open>/tmp/a.wav\<close>, and on the directory \<open>/tmp/ckpt\<close>.
\<close>

theorem delete_retry_policy_witness:
  "delete_file_if_exists ''/tmp/a.wav'' example_world =
     (Inl (RuntimeError ''/tmp/a.wav'' OSError),
      example_world\<lparr>faults := [],
        trace :=
          [Remove ''/tmp/a.wav'', Warn 0 ''/tmp/a.wav'', Sleep 1,
           Remove ''/tmp/a.wav'', Warn 1 ''/tmp/a.wav'', Sleep 1,
           Remove ''/tmp/a.wav'', Warn 2 ''/tmp/a.wav'', Sleep 1,
           Remove ''/tmp/a.wav'', Warn 3 ''/tmp/a.wav'', Sleep 1,
           Remove ''/tmp/a.wav'', Warn 4 ''/tmp/a.wav'']\<rparr>)
   \<and> delete_directory_if_exists ''/tmp/ckpt'' example_world =
       (Inl OSError,
        example_world\<lparr>faults := [Some OSError, Some (ValueError ''embedded null byte''),
                                  Some OSError, Some OSError],
          trace := [Rmtree ''/tmp/ckpt'']\<rparr>)"
proof -
  have f: "files example_world ''/tmp/a.wav'' = Some File
           \<and> faults example_world
               = map Some [OSError, OSError, ValueError ''embedded null byte'', OSError, OSError] @ []
           \<and> length [OSError, OSError, ValueError ''embedded null byte'', OSError, OSError] = 5
           \<and> (\<forall>e \<in> set [OSError, OSError, ValueError ''embedded null byte'', OSError, OSError].
                 caught e)"
    by (simp add: example_world_def)
  have d: "files example_world ''/tmp/ckpt'' = Some Dir
           \<and> faults example_world
               = Some OSError # [Some OSError, Some (ValueError ''embedded null byte''),
                                 Some OSError, Some OSError]"
    by (simp add: example_world_def)
  have t: "trace example_world = []"
    by (simp add: example_world_def)
  from delete_retry_policy[where w = example_world and path = "''/tmp/a.wav''"
      and es = "[OSError, OSError, ValueError ''embedded null byte'', OSError, OSError]"
      and rest = "[]"] f t
  have a: "delete_file_if_exists ''/tmp/a.wav'' example_world =
     (Inl (RuntimeError ''/tmp/a.wav'' OSError),
      example_world\<lparr>faults := [],
        trace :=
          [Remove ''/tmp/a.wav'', Warn 0 ''/tmp/a.wav'', Sleep 1,
           Remove ''/tmp/a.wav'', Warn 1 ''/tmp/a.wav'', Sleep 1,
           Remove ''/tmp/a.wav'', Warn 2 ''/tmp/a.wav'', Sleep 1,
           Remove ''/tmp/a.wav'', Warn 3 ''/tmp/a.wav'', Sleep 1,
           Remove ''/tmp/a.wav'', Warn 4 ''/tmp/a.wav'']\<rparr>)"
    by simp
  from delete_retry_policy[where w = example_world and path = "''/tmp/ckpt''" and e = OSError
      and rest' = "[Some OSError, Some (ValueError ''embedded null byte''), Some OSError,
                    Some OSError]"] d t
  have b: "delete_directory_if_exists ''/tmp/ckpt'' example_world =
       (Inl OSError,
        example_world\<lparr>faults := [Some OSError, Some (ValueError ''embedded null byte''),
                                  Some OSError, Some OSError],
          trace := [Rmtree ''/tmp/ckpt'']\<rparr>)"
    by simp
  from a b show ?thesis
    by blast
qed

text \<open>
  Claim C9. On a path that does not exist \<open>delete_file_if_exists\<close> returns normally and
  leaves the world as it was: the file system is unchanged and the trace has no new
  deletion call. Calling it again therefore does the same.
\<close>

theorem delete_file_if_exists_missing:
  assumes "files w path = None"
  shows "delete_file_if_exists path w = (Inr (), w)"
  using assms by (simp add: delete_file_if_exists_def os_path_exists_def)

text \<open>The theorem at a path absent from the example world, called once and called twice.\<close>

theorem delete_file_if_exists_missing_witness:
  "files example_world ''/tmp/b.wav'' = None
   \<and> delete_file_if_exists ''/tmp/b.wav'' example_world = (Inr (), example_world)
   \<and> (case delete_file_if_exists ''/tmp/b.wav'' example_world of
         (r, w) \<Rightarrow> delete_file_if_exists ''/tmp/b.wav'' w) = (Inr (), example_world)"
proof -
  have h: "files example_world ''/tmp/b.wav'' = None"
    by (simp add: example_world_def)
  from delete_file_if_exists_missing[OF h] h show ?thesis
    by simp
qed

end
